theory Spec2Isabelle
  imports Complex_Main "HOL-Library.Sublist"
begin

section \<open>Values of the source document\<close>

text \<open>
  The map file is a JSON document, read with Python's \<^verbatim>\<open>json.load\<close>. A JSON
  object becomes a Python dict, listed here with its keys and values (the keys are
  distinct: the parser has already kept one value per key); \<^verbatim>\<open>null\<close> is
  Python's \<^verbatim>\<open>None\<close>. Numbers are idealised: Python's int and float are both
  read as a real number, and the arithmetic of the importer is the arithmetic of the reals.
\<close>

datatype json =
    JNull
  | JBool bool
  | JNum real
  | JStr string
  | JArr "json list"
  | JObj "(string \<times> json) list"

datatype py_error =
    TypeError
  | AttributeError
  | UnboundLocalError
  | OSError
  | JSONDecodeError

text \<open>Sequencing of computations that may raise: the first exception wins.\<close>

definition bindE :: "py_error + 'a \<Rightarrow> ('a \<Rightarrow> py_error + 'b) \<Rightarrow> py_error + 'b" where
  "bindE m f = (case m of Inl e \<Rightarrow> Inl e | Inr v \<Rightarrow> f v)"

text \<open>Python's truth value of an object (\<^verbatim>\<open>not x\<close>, \<^verbatim>\<open>if x\<close>).\<close>

fun truthy :: "json \<Rightarrow> bool" where
  "truthy JNull = False"
| "truthy (JBool b) = b"
| "truthy (JNum r) = (r \<noteq> 0)"
| "truthy (JStr s) = (s \<noteq> [])"
| "truthy (JArr xs) = (xs \<noteq> [])"
| "truthy (JObj kvs) = (kvs \<noteq> [])"

text \<open>
  \<^verbatim>\<open>d.get(key, default)\<close>: only a dict has the method; any other object raises
  AttributeError.
\<close>

fun py_get :: "json \<Rightarrow> string \<Rightarrow> json \<Rightarrow> py_error + json" where
  "py_get (JObj kvs) k d = Inr (case map_of kvs k of None \<Rightarrow> d | Some v \<Rightarrow> v)"
| "py_get _ k d = Inl AttributeError"

text \<open>
  A value used as a number (\<^verbatim>\<open>x / 100\<close>, \<^verbatim>\<open>x * -1\<close> passed to
  \<^verbatim>\<open>math.radians\<close>, a component of a vector, a comparison with a float): a number is
  itself, a bool is 0 or 1, anything else raises TypeError.
\<close>

fun as_number :: "json \<Rightarrow> py_error + real" where
  "as_number (JNum r) = Inr r"
| "as_number (JBool b) = Inr (if b then 1 else 0)"
| "as_number _ = Inl TypeError"

text \<open>\<^verbatim>\<open>math.radians\<close>.\<close>

definition radians :: "real \<Rightarrow> real" where
  "radians d = d * pi / 180"

type_synonym vec3 = "real \<times> real \<times> real"

section \<open>Light colour\<close>

definition color_temp_table_r :: "real list list" where
  "color_temp_table_r =
    [[2524.32244, -0.00106185848, 3.11067539],
     [3377.63626, -0.000434581697, 1.64843306],
     [4106.71449, -0.0000861949938, 0.641423749],
     [4668.49800, 0.0000285655028, 0.129075375],
     [4601.24770, 0.0000289727618, 0.148001316],
     [3787.65709, 0.00000936026367, 0.398995841]]"

definition color_temp_table_g :: "real list list" where
  "color_temp_table_g =
    [[-750.343014, 0.000315679613, 0.473464526],
     [-1004.02363, 0.000129189794, 0.908181524],
     [-1220.75471, 0.0000256245413, 1.20753416],
     [-1425.46105, -0.0000401730887, 1.44002695],
     [-1181.34453, -0.0000218913373, 1.30656109],
     [-500.279505, -0.00000459745390, 1.09090465]]"

definition color_temp_table_b :: "real list list" where
  "color_temp_table_b =
    [[0, 0, 0, 0],
     [0, 0, 0, 0],
     [0, 0, 0, 0],
     [-0.0000000000202524603, 0.000000179435860, -0.000260561875, -0.0141761141],
     [-0.000000000000222463426, -0.0000000155078698, 0.000381675160, -0.730646033],
     [0.000000000000672595954, -0.0000000273059993, 0.000424068546, -0.752204323]]"

definition temp_to_color :: "real \<Rightarrow> vec3" where
  "temp_to_color temp =
    (if temp \<ge> 12000 then (0.826270103, 0.994478524, 1.56626022)
     else if temp < 965 then (4.70366907, 0, 0)
     else
       let i = (if temp \<ge> 6365 then 5
                else if temp \<ge> 3315 then 4
                else if temp \<ge> 1902 then 3
                else if temp \<ge> 1449 then 2
                else if temp \<ge> 1167 then 1
                else (0::nat));
           r = color_temp_table_r ! i;
           g = color_temp_table_g ! i;
           b = color_temp_table_b ! i;
           temp_inv = 1 / temp
       in (r ! 0 * temp_inv + r ! 1 * temp + r ! 2,
           g ! 0 * temp_inv + g ! 1 * temp + g ! 2,
           ((b ! 0 * temp + b ! 1) * temp + b ! 2) * temp + b ! 3))"

section \<open>Transforms and their matrices\<close>

text \<open>
  \<^verbatim>\<open>InstanceTransform\<close>. The position and the Euler rotation are computed numbers;
  the scale components are stored as they are read from the document
  (\<^verbatim>\<open>scale.get("X", 1)\<close>) and are only used as numbers when an object is placed.
\<close>

record InstanceTransform =
  pos :: vec3
  rot_euler :: vec3
  scale :: "json \<times> json \<times> json"

definition new_InstanceTransform :: InstanceTransform where
  "new_InstanceTransform =
     \<lparr>pos = (0, 0, 0), rot_euler = (0, 0, 0), scale = (JNum 1, JNum 1, JNum 1)\<rparr>"

definition vec3_of :: "json \<times> json \<times> json \<Rightarrow> py_error + vec3" where
  "vec3_of v =
     (case v of (a, b, c) \<Rightarrow>
        bindE (as_number a) (\<lambda>x.
        bindE (as_number b) (\<lambda>y.
        bindE (as_number c) (\<lambda>z. Inr (x, y, z)))))"

type_synonym mat4 = "real list list"

text \<open>
  The library's rotation matrix of an Euler triple in order XYZ, then
  \<^verbatim>\<open>Matrix.LocRotScale\<close>: the columns of the rotation are scaled and the location
  is the fourth column. \<^verbatim>\<open>@\<close> is the matrix product.
\<close>

definition euler_to_mat3 :: "vec3 \<Rightarrow> real list list" where
  "euler_to_mat3 e =
     (case e of (i, j, h) \<Rightarrow>
        [[cos j * cos h, sin j * (sin i * cos h) - cos i * sin h, sin j * (cos i * cos h) + sin i * sin h],
         [cos j * sin h, sin j * (sin i * sin h) + cos i * cos h, sin j * (cos i * sin h) - sin i * cos h],
         [- sin j, cos j * sin i, cos j * cos i]])"

definition LocRotScale :: "vec3 \<Rightarrow> vec3 \<Rightarrow> vec3 \<Rightarrow> mat4" where
  "LocRotScale loc rot sc =
     (case loc of (lx, ly, lz) \<Rightarrow> case sc of (sx, sy, sz) \<Rightarrow>
        map2 (\<lambda>row l. map2 (*) row [sx, sy, sz] @ [l]) (euler_to_mat3 rot) [lx, ly, lz]
        @ [[0, 0, 0, 1]])"

definition mat_mul :: "mat4 \<Rightarrow> mat4 \<Rightarrow> mat4" where
  "mat_mul A B = map (\<lambda>row. map (\<lambda>col. sum_list (map2 (*) row col)) (transpose B)) A"

definition matrix_4x4 :: "InstanceTransform \<Rightarrow> py_error + mat4" where
  "matrix_4x4 trs =
     bindE (vec3_of (scale trs)) (\<lambda>s. Inr (LocRotScale (pos trs) (rot_euler trs) s))"

section \<open>What the importer takes from its surroundings\<close>

text \<open>
  A loaded asset is an object of the host with a name and mesh data. The importer is
  given: \<^verbatim>\<open>os.path.normpath\<close> and \<^verbatim>\<open>os.sep\<close> of the platform, the library's
  conversion of a quaternion (components in the order W, X, Y, Z) to an Euler triple in
  order XYZ, and the asset loader of the base class, which returns None on failure.
\<close>

record loaded_object =
  lo_name :: string
  lo_data :: nat

record env =
  normpath :: "string \<Rightarrow> string"
  os_sep :: char
  quat_to_euler :: "real \<times> real \<times> real \<times> real \<Rightarrow> vec3"
  load_asset :: "string \<Rightarrow> loaded_object option"

section \<open>Static meshes\<close>

fun split_on :: "char \<Rightarrow> string \<Rightarrow> string list" where
  "split_on c [] = [[]]"
| "split_on c (x # xs) =
     (if x = c then [] # split_on c xs
      else case split_on c xs of p # ps \<Rightarrow> (x # p) # ps | [] \<Rightarrow> [[x]])"

text \<open>Only a string has \<^verbatim>\<open>split\<close>.\<close>

fun split_object_path :: "json \<Rightarrow> py_error + string" where
  "split_object_path (JStr object_path) =
     (let path_parts = split_on CHR ''.'' object_path
      in if length path_parts > 1 then Inr (hd path_parts) else Inr object_path)"
| "split_object_path _ = Inl AttributeError"

text \<open>
  \<^verbatim>\<open>'BasicShapes' in object_path\<close>: a substring of a string, an element of a list, a
  key of a dict; any other object is not a container.
\<close>

fun py_contains :: "string \<Rightarrow> json \<Rightarrow> py_error + bool" where
  "py_contains s (JStr t) = Inr (sublist s t)"
| "py_contains s (JArr xs) = Inr (JStr s \<in> set xs)"
| "py_contains s (JObj kvs) = Inr (s \<in> set (map fst kvs))"
| "py_contains s _ = Inl TypeError"

text \<open>What a \<^verbatim>\<open>for\<close> loop iterates over.\<close>

fun py_iter :: "json \<Rightarrow> py_error + json list" where
  "py_iter (JArr xs) = Inr xs"
| "py_iter (JObj kvs) = Inr (map (\<lambda>kv. JStr (fst kv)) kvs)"
| "py_iter (JStr s) = Inr (map (\<lambda>c. JStr [c]) s)"
| "py_iter _ = Inl TypeError"

record StaticMesh =
  entity_name :: json
  asset_path :: string
  transform :: "InstanceTransform option"
  instance_transforms :: "InstanceTransform list"
  no_entity :: bool
  no_mesh :: bool
  no_path :: bool
  no_per_instance_data :: bool
  base_shape :: bool
  is_instanced :: bool
  not_rendered :: bool
  invisible :: bool
  bad_creation_method :: bool

text \<open>The class attributes; \<^verbatim>\<open>transform\<close> has no value until it is assigned.\<close>

definition new_StaticMesh :: StaticMesh where
  "new_StaticMesh =
     \<lparr>entity_name = JStr [], asset_path = [], transform = None, instance_transforms = [],
      no_entity = False, no_mesh = False, no_path = False, no_per_instance_data = False,
      base_shape = False, is_instanced = False, not_rendered = False, invisible = False,
      bad_creation_method = False\<rparr>"

text \<open>The three conversions, which the source writes out at each place they are used.\<close>

definition read_location :: "json \<Rightarrow> py_error + vec3" where
  "read_location p =
     bindE (py_get p ''X'' JNull) (\<lambda>jx. bindE (as_number jx) (\<lambda>x.
     bindE (py_get p ''Y'' JNull) (\<lambda>jy. bindE (as_number jy) (\<lambda>y.
     bindE (py_get p ''Z'' JNull) (\<lambda>jz. bindE (as_number jz) (\<lambda>z.
     Inr (x / 100, y / (- 100), z / 100)))))))"

definition read_rotation :: "json \<Rightarrow> py_error + vec3" where
  "read_rotation r =
     bindE (py_get r ''Roll'' JNull) (\<lambda>jr. bindE (as_number jr) (\<lambda>roll.
     bindE (py_get r ''Pitch'' JNull) (\<lambda>jp. bindE (as_number jp) (\<lambda>pitch.
     bindE (py_get r ''Yaw'' JNull) (\<lambda>jy. bindE (as_number jy) (\<lambda>yaw.
     Inr (radians roll, radians (pitch * (- 1)), radians (yaw * (- 1)))))))))"

definition read_scale :: "json \<Rightarrow> py_error + json \<times> json \<times> json" where
  "read_scale s =
     bindE (py_get s ''X'' (JNum 1)) (\<lambda>x.
     bindE (py_get s ''Y'' (JNum 1)) (\<lambda>y.
     bindE (py_get s ''Z'' (JNum 1)) (\<lambda>z. Inr (x, y, z))))"

text \<open>The transform of the component itself, from its relative properties.\<close>

definition base_transform :: "json \<Rightarrow> py_error + InstanceTransform" where
  "base_transform props =
     bindE (py_get props ''RelativeLocation'' JNull) (\<lambda>p.
     bindE (if p \<noteq> JNull then read_location p else Inr (pos new_InstanceTransform)) (\<lambda>ps.
     bindE (py_get props ''RelativeRotation'' JNull) (\<lambda>r.
     bindE (if r \<noteq> JNull then read_rotation r else Inr (rot_euler new_InstanceTransform)) (\<lambda>rt.
     bindE (py_get props ''RelativeScale3D'' JNull) (\<lambda>s.
     bindE (if s \<noteq> JNull then read_scale s else Inr (scale new_InstanceTransform)) (\<lambda>sc.
     Inr \<lparr>pos = ps, rot_euler = rt, scale = sc\<rparr>))))))"

text \<open>The rotation of one instance, a quaternion in the document.\<close>

definition read_quaternion :: "env \<Rightarrow> json \<Rightarrow> py_error + vec3" where
  "read_quaternion E r =
     bindE (py_get r ''W'' JNull) (\<lambda>jw.
     bindE (py_get r ''X'' JNull) (\<lambda>jx.
     bindE (py_get r ''Y'' JNull) (\<lambda>jy.
     bindE (py_get r ''Z'' JNull) (\<lambda>jz.
     bindE (as_number jw) (\<lambda>w. bindE (as_number jx) (\<lambda>x.
     bindE (as_number jy) (\<lambda>y. bindE (as_number jz) (\<lambda>z.
     case quat_to_euler E (w, x, y, z) of (ex, ey, ez) \<Rightarrow> Inr (- ex, ey, - ez)))))))))"

definition instance_transform :: "env \<Rightarrow> json \<Rightarrow> py_error + InstanceTransform" where
  "instance_transform E inst =
     bindE (py_get inst ''TransformData'' JNull) (\<lambda>trs_data.
     if trs_data = JNull then Inr new_InstanceTransform
     else
       bindE (py_get trs_data ''Translation'' JNull) (\<lambda>p.
       bindE (if p \<noteq> JNull then read_location p else Inr (pos new_InstanceTransform)) (\<lambda>ps.
       bindE (py_get trs_data ''Rotation'' JNull) (\<lambda>r.
       bindE (if r \<noteq> JNull then read_quaternion E r else Inr (rot_euler new_InstanceTransform)) (\<lambda>rt.
       bindE (py_get trs_data ''Scale3D'' JNull) (\<lambda>s.
       bindE (if s \<noteq> JNull then read_scale s else Inr (scale new_InstanceTransform)) (\<lambda>sc.
       Inr \<lparr>pos = ps, rot_euler = rt, scale = sc\<rparr>)))))))"

fun read_instances :: "env \<Rightarrow> json list \<Rightarrow> py_error + InstanceTransform list" where
  "read_instances E [] = Inr []"
| "read_instances E (inst # insts) =
     bindE (instance_transform E inst) (\<lambda>trs.
     bindE (read_instances E insts) (\<lambda>rest. Inr (trs # rest)))"

definition make_asset_path :: "env \<Rightarrow> string \<Rightarrow> string" where
  "make_asset_path E objpath =
     (let p = normpath E (objpath @ ''.uasset'')
      in case p of [] \<Rightarrow> p | c # rest \<Rightarrow> if c = os_sep E then rest else p)"

text \<open>
  The constructor, in two parts: the \<^verbatim>\<open>match\<close> on the entity type at its end, which
  reads the transforms, and before it the chain of checks, each of which returns early
  with its flag set (the flags \<^verbatim>\<open>invisible\<close> and \<^verbatim>\<open>bad_creation_method\<close> are
  set without returning).
\<close>

definition StaticMesh_match ::
  "env \<Rightarrow> json \<Rightarrow> json \<Rightarrow> json \<Rightarrow> StaticMesh \<Rightarrow> py_error + StaticMesh" where
  "StaticMesh_match E json_entity props entity_type self =
     (if entity_type = JStr ''StaticMeshComponent'' then
        bindE (base_transform props) (\<lambda>trs. Inr (self\<lparr>transform := Some trs\<rparr>))
      else if entity_type = JStr ''InstancedStaticMeshComponent''
              \<or> entity_type = JStr ''HierarchicalInstancedStaticMeshComponent'' then
        bindE (py_get json_entity ''PerInstanceSMData'' JNull) (\<lambda>instances.
        if instances = JNull
        then Inr (self\<lparr>is_instanced := True, no_per_instance_data := True\<rparr>)
        else
          bindE (base_transform props) (\<lambda>trs.
          bindE (py_iter instances) (\<lambda>insts.
          bindE (read_instances E insts) (\<lambda>its.
          Inr (self\<lparr>is_instanced := True, transform := Some trs,
                     instance_transforms := its\<rparr>)))))
      else Inr self)"

definition StaticMesh_init :: "env \<Rightarrow> json \<Rightarrow> json \<Rightarrow> py_error + StaticMesh" where
  "StaticMesh_init E json_entity entity_type =
     bindE (py_get json_entity ''Outer'' (JStr ''Error'')) (\<lambda>name.
     let self = new_StaticMesh\<lparr>entity_name := name\<rparr> in
     bindE (py_get json_entity ''Properties'' JNull) (\<lambda>props.
     if \<not> truthy props then Inr (self\<lparr>no_entity := True\<rparr>) else
     bindE (py_get props ''StaticMesh'' JNull) (\<lambda>sm.
     if \<not> truthy sm then Inr (self\<lparr>no_mesh := True\<rparr>) else
     bindE (py_get sm ''ObjectPath'' JNull) (\<lambda>object_path.
     if \<not> truthy object_path \<or> object_path = JStr [] then Inr (self\<lparr>no_path := True\<rparr>) else
     bindE (py_contains ''BasicShapes'' object_path) (\<lambda>basic.
     if basic then Inr (self\<lparr>base_shape := True\<rparr>) else
     bindE (py_get props ''bRenderInMainPass'' JNull) (\<lambda>render_in_main_pass.
     if render_in_main_pass \<noteq> JNull \<and> \<not> truthy render_in_main_pass
     then Inr (self\<lparr>not_rendered := True\<rparr>) else
     bindE (py_get props ''bVisible'' JNull) (\<lambda>is_visible.
     bindE (py_get props ''CreationMethod'' JNull) (\<lambda>creation_method.
     bindE (split_object_path object_path) (\<lambda>objpath.
     StaticMesh_match E json_entity props entity_type
       (self\<lparr>invisible := (is_visible \<noteq> JNull \<and> \<not> truthy is_visible),
             bad_creation_method :=
               (creation_method \<noteq> JNull
                \<and> creation_method = JStr ''EComponentCreationMethod::UserConstructionScript''),
             asset_path := make_asset_path E objpath\<rparr>))))))))))"

definition StaticMesh_invalid :: "StaticMesh \<Rightarrow> bool" where
  "StaticMesh_invalid self \<longleftrightarrow>
     no_path self \<or> no_entity self \<or> base_shape self \<or> no_mesh self \<or> no_per_instance_data self
     \<or> not_rendered self \<or> invisible self \<or> bad_creation_method self"

section \<open>Objects of the host scene\<close>

text \<open>
  An object of the host has a name, its data, and a transform, which the importer
  assigns either as a world matrix or as location, Euler rotation and scale.
\<close>

datatype light_kind = SPOT | POINT

datatype object_data =
    MeshData nat
  | LightData string light_kind vec3

datatype object_transform =
    MatrixWorld mat4
  | Components vec3 vec3 vec3

record bpy_object =
  ob_name :: string
  ob_data :: object_data
  ob_rotation_mode :: string
  ob_transform :: object_transform

text \<open>
  \<^verbatim>\<open>bpy.data.objects.new(obj.name, object_data=obj.data)\<close> for a loaded asset, with
  the rotation mode and the transform the importer assigns to the new object.
\<close>

definition mesh_object :: "loaded_object \<Rightarrow> object_transform \<Rightarrow> bpy_object" where
  "mesh_object obj t =
     \<lparr>ob_name = lo_name obj, ob_data = MeshData (lo_data obj), ob_rotation_mode = ''XYZ'',
      ob_transform = t\<rparr>"

text \<open>
  The loop over the instance transforms: each round creates one object with the world
  matrix \<^verbatim>\<open>trs.matrix_4x4 @ instance_trs.matrix_4x4\<close> and links it. A round that
  raises leaves the objects of the earlier rounds in the collection.
\<close>

fun link_instances ::
  "InstanceTransform \<Rightarrow> loaded_object \<Rightarrow> InstanceTransform list \<Rightarrow> bpy_object list
   \<Rightarrow> (py_error + bpy_object list) \<times> bpy_object list" where
  "link_instances trs obj [] collection = (Inr [], collection)"
| "link_instances trs obj (instance_trs # rest) collection =
     (case bindE (matrix_4x4 trs) (\<lambda>b. bindE (matrix_4x4 instance_trs) (\<lambda>i. Inr (mat_mul b i))) of
        Inl e \<Rightarrow> (Inl e, collection)
      | Inr mat_world \<Rightarrow>
          let new_obj = mesh_object obj (MatrixWorld mat_world)
          in (case link_instances trs obj rest (collection @ [new_obj]) of
                (Inl e, collection') \<Rightarrow> (Inl e, collection')
              | (Inr objects, collection') \<Rightarrow> (Inr (new_obj # objects), collection')))"

definition link_object_instance ::
  "StaticMesh \<Rightarrow> loaded_object \<Rightarrow> bpy_object list
   \<Rightarrow> (py_error + bpy_object list) \<times> bpy_object list" where
  "link_object_instance self obj collection =
     (if StaticMesh_invalid self then (Inr [], collection)
      else case transform self of
        None \<Rightarrow> (Inl AttributeError, collection)
      | Some trs \<Rightarrow>
          if is_instanced self then link_instances trs obj (instance_transforms self) collection
          else
            (case vec3_of (scale trs) of
               Inl e \<Rightarrow> (Inl e, collection)
             | Inr sc \<Rightarrow>
                 let new_obj = mesh_object obj (Components (pos trs) (rot_euler trs) sc)
                 in (Inr [new_obj], collection @ [new_obj])))"

section \<open>Lights\<close>

text \<open>
  \<^verbatim>\<open>x * -1\<close> as the light's constructor applies it to the yaw, which it stores
  without using it as a number: a string or a list times -1 is empty.
\<close>

fun times_minus_one :: "json \<Rightarrow> py_error + json" where
  "times_minus_one (JNum r) = Inr (JNum (r * (- 1)))"
| "times_minus_one (JBool b) = Inr (JNum ((if b then 1 else 0) * (- 1)))"
| "times_minus_one (JStr s) = Inr (JStr [])"
| "times_minus_one (JArr xs) = Inr (JArr [])"
| "times_minus_one _ = Inl TypeError"

record GameLight =
  light_type :: json
  light_entity_name :: json
  light_pos :: vec3
  light_rot :: "json \<times> json \<times> json"
  light_scale :: "json \<times> json \<times> json"
  light_color :: vec3
  light_no_entity :: bool

definition new_GameLight :: GameLight where
  "new_GameLight =
     \<lparr>light_type = JStr [], light_entity_name = JStr [], light_pos = (0, 0, 0),
      light_rot = (JNum 0, JNum 0, JNum 0), light_scale = (JNum 1, JNum 1, JNum 1),
      light_color = (1, 1, 1), light_no_entity = False\<rparr>"

definition GameLight_invalid :: "GameLight \<Rightarrow> bool" where
  "GameLight_invalid self \<longleftrightarrow> light_no_entity self"

definition GameLight_init :: "json \<Rightarrow> py_error + GameLight" where
  "GameLight_init json_entity =
     bindE (py_get json_entity ''Outer'' (JStr ''Error'')) (\<lambda>name.
     bindE (py_get json_entity ''Type'' JNull) (\<lambda>ty.
     let self = new_GameLight\<lparr>light_entity_name := name, light_type := ty\<rparr> in
     if \<not> truthy ty then Inr (self\<lparr>light_no_entity := True\<rparr>) else
     bindE (py_get json_entity ''Properties'' JNull) (\<lambda>props.
     if \<not> truthy props then Inr (self\<lparr>light_no_entity := True\<rparr>) else
     bindE (py_get props ''RelativeLocation'' (JBool False)) (\<lambda>p.
     bindE (if truthy p then read_location p else Inr (light_pos self)) (\<lambda>ps.
     bindE (py_get props ''RelativeRotation'' JNull) (\<lambda>rot.
     bindE (if rot \<noteq> JNull then
              bindE (py_get rot ''Roll'' JNull) (\<lambda>roll.
              bindE (py_get rot ''Pitch'' JNull) (\<lambda>pitch.
              bindE (py_get rot ''Yaw'' JNull) (\<lambda>yaw.
              bindE (times_minus_one yaw) (\<lambda>yaw'. Inr (roll, pitch, yaw')))))
            else Inr (light_rot self)) (\<lambda>rt.
     bindE (py_get props ''RelativeScale3D'' (JBool False)) (\<lambda>s.
     bindE (if truthy s then read_scale s else Inr (light_scale self)) (\<lambda>sc.
     bindE (py_get props ''Temperature'' JNull) (\<lambda>temp.
     bindE (if temp \<noteq> JNull then bindE (as_number temp) (\<lambda>t. Inr (temp_to_color t))
            else Inr (light_color self)) (\<lambda>col.
     Inr (self\<lparr>light_pos := ps, light_rot := rt, light_scale := sc, light_color := col\<rparr>))))))))))))"

text \<open>
  The state \<^verbatim>\<open>import_light\<close> works on: the objects of the collection it is given
  and the objects of the root collection of the scene.
\<close>

record collections =
  import_objects :: "bpy_object list"
  scene_objects :: "bpy_object list"

text \<open>
  The data of the light and the object are named by the entity name, which the host
  accepts only as a string. No branch of the \<^verbatim>\<open>match\<close> binds \<^verbatim>\<open>light_data\<close> for
  another type.
\<close>

definition import_light :: "GameLight \<Rightarrow> collections \<Rightarrow> (py_error + bool) \<times> collections" where
  "import_light self cs =
     (if light_no_entity self then (Inr False, cs)
      else
        case
          bindE (if light_type self = JStr ''SpotLightComponent'' then Inr SPOT
                 else if light_type self = JStr ''PointLightComponent'' then Inr POINT
                 else Inl UnboundLocalError) (\<lambda>kind.
          bindE (case light_entity_name self of JStr n \<Rightarrow> Inr n | _ \<Rightarrow> Inl TypeError) (\<lambda>name.
          bindE (vec3_of (light_scale self)) (\<lambda>sc.
          bindE (vec3_of (light_rot self)) (\<lambda>r.
          Inr \<lparr>ob_name = name, ob_data = LightData name kind (light_color self),
               ob_rotation_mode = ''XYZ'',
               ob_transform = Components (light_pos self)
                 (case r of (r0, r1, r2) \<Rightarrow> (radians r0, radians r1, radians r2)) sc\<rparr>))))
        of
          Inl e \<Rightarrow> (Inl e, cs)
        | Inr light_obj \<Rightarrow>
            (Inr True, \<lparr>import_objects = import_objects cs @ [light_obj],
                        scene_objects = scene_objects cs @ [light_obj]\<rparr>))"

section \<open>The map importer\<close>

definition static_mesh_types :: "json list" where
  "static_mesh_types =
     [JStr ''StaticMeshComponent'', JStr ''InstancedStaticMeshComponent'',
      JStr ''HierarchicalInstancedStaticMeshComponent'']"

definition light_types :: "json list" where
  "light_types = [JStr ''SpotLightComponent'', JStr ''PointLightComponent'']"

text \<open>
  The state of the loop over the entities: the two collections, and whether the local
  variable \<^verbatim>\<open>static_mesh\<close> has been assigned yet (the message of the light branch
  reads it).
\<close>

record loop_state =
  cols :: collections
  static_mesh_bound :: bool

definition import_entity :: "env \<Rightarrow> json \<Rightarrow> loop_state \<Rightarrow> (py_error + unit) \<times> loop_state" where
  "import_entity E entity st =
     (case py_get entity ''Type'' JNull of
        Inl e \<Rightarrow> (Inl e, st)
      | Inr entity_type \<Rightarrow>
          if \<not> truthy entity_type then (Inr (), st)
          else if entity_type \<in> set static_mesh_types then
            (case StaticMesh_init E entity entity_type of
               Inl e \<Rightarrow> (Inl e, st)
             | Inr static_mesh \<Rightarrow>
                 let st = st\<lparr>static_mesh_bound := True\<rparr> in
                 if StaticMesh_invalid static_mesh then (Inr (), st)
                 else
                   (case load_asset E (asset_path static_mesh) of
                      None \<Rightarrow> (Inr (), st)
                    | Some obj \<Rightarrow>
                        (case link_object_instance static_mesh obj (import_objects (cols st)) of
                           (r, collection) \<Rightarrow>
                             (case r of Inl e \<Rightarrow> Inl e | Inr objects \<Rightarrow> Inr (),
                              st\<lparr>cols := (cols st)\<lparr>import_objects := collection\<rparr>\<rparr>))))
          else if entity_type \<in> set light_types then
            (case GameLight_init entity of
               Inl e \<Rightarrow> (Inl e, st)
             | Inr light \<Rightarrow>
                 if GameLight_invalid light then
                   (if static_mesh_bound st then (Inr (), st) else (Inl UnboundLocalError, st))
                 else
                   (case import_light light (cols st) of
                      (r, cs) \<Rightarrow>
                        (case r of Inl e \<Rightarrow> Inl e | Inr ok \<Rightarrow> Inr (), st\<lparr>cols := cs\<rparr>)))
          else (Inr (), st))"

fun import_entities :: "env \<Rightarrow> json list \<Rightarrow> loop_state \<Rightarrow> (py_error + unit) \<times> loop_state" where
  "import_entities E [] st = (Inr (), st)"
| "import_entities E (entity # rest) st =
     (case import_entity E entity st of
        (Inl e, st') \<Rightarrow> (Inl e, st')
      | (Inr u, st') \<Rightarrow> import_entities E rest st')"

text \<open>
  The file at the map path: absent, present but not to be opened, present with a content
  that is not JSON, or a JSON document. The scene has the objects of its root
  collection, the child collections linked to it (name and objects), and the number of
  timers registered for the reload of the libraries.
\<close>

datatype map_file = Missing | Unreadable | Unparsable | Parsed json

record bpy_scene =
  scene_root :: "bpy_object list"
  scene_children :: "(string \<times> bpy_object list) list"
  reload_timers :: nat

definition with_import_collection ::
  "bpy_scene \<Rightarrow> string \<Rightarrow> collections \<Rightarrow> bpy_scene" where
  "with_import_collection sc json_filename cs =
     sc\<lparr>scene_root := scene_objects cs,
        scene_children := scene_children sc @ [(json_filename, import_objects cs)]\<rparr>"

definition import_map ::
  "env \<Rightarrow> string \<Rightarrow> map_file \<Rightarrow> bpy_scene \<Rightarrow> (py_error + bool) \<times> bpy_scene" where
  "import_map E json_filename file sc =
     (let cs0 = \<lparr>import_objects = [], scene_objects = scene_root sc\<rparr> in
      case file of
        Missing \<Rightarrow> (Inr False, sc)
      | Unreadable \<Rightarrow> (Inl OSError, with_import_collection sc json_filename cs0)
      | Unparsable \<Rightarrow> (Inl JSONDecodeError, with_import_collection sc json_filename cs0)
      | Parsed json_object \<Rightarrow>
          (case py_iter json_object of
             Inl e \<Rightarrow> (Inl e, with_import_collection sc json_filename cs0)
           | Inr entities \<Rightarrow>
               (case import_entities E entities \<lparr>cols = cs0, static_mesh_bound = False\<rparr> of
                  (Inl e, st) \<Rightarrow> (Inl e, with_import_collection sc json_filename (cols st))
                | (Inr u, st) \<Rightarrow>
                    (Inr True,
                     (with_import_collection sc json_filename (cols st))
                       \<lparr>reload_timers := Suc (reload_timers sc)\<rparr>))))"

section \<open>Example surroundings and documents\<close>

text \<open>
  Surroundings in which every asset loads, for the concrete runs below: paths are
  already normal, and the stand-in for the library's quaternion conversion returns the
  vector part.
\<close>

definition example_env :: env where
  "example_env =
     \<lparr>normpath = (\<lambda>p. p), os_sep = CHR ''/'',
      quat_to_euler = (\<lambda>q. case q of (w, x, y, z) \<Rightarrow> (x, y, z)),
      load_asset = (\<lambda>p. Some \<lparr>lo_name = ''Rock'', lo_data = 7\<rparr>)\<rparr>"


definition empty_scene :: bpy_scene where
  "empty_scene = \<lparr>scene_root = [], scene_children = [], reload_timers = 0\<rparr>"

definition rock_mesh :: json where
  "rock_mesh = JObj [(''ObjectPath'', JStr ''/Game/Meshes/Rock.0'')]"

text \<open>A static mesh at the given position (in cm) with zero rotation and unit scale.\<close>

definition rock_at :: "real \<Rightarrow> real \<Rightarrow> real \<Rightarrow> json" where
  "rock_at x y z =
     JObj [(''Type'', JStr ''StaticMeshComponent''), (''Outer'', JStr ''Rock_1''),
           (''Properties'', JObj
              [(''StaticMesh'', rock_mesh),
               (''RelativeLocation'', JObj [(''X'', JNum x), (''Y'', JNum y), (''Z'', JNum z)]),
               (''RelativeRotation'', JObj [(''Roll'', JNum 0), (''Pitch'', JNum 0), (''Yaw'', JNum 0)]),
               (''RelativeScale3D'', JObj [(''X'', JNum 1), (''Y'', JNum 1), (''Z'', JNum 1)])])]"


text \<open>A point light with a rotation of 10, 20 and 30 degrees.\<close>

definition turned_light :: json where
  "turned_light =
     JObj [(''Type'', JStr ''PointLightComponent''), (''Outer'', JStr ''Lamp_1''),
           (''Properties'', JObj
              [(''RelativeRotation'',
                JObj [(''Roll'', JNum 10), (''Pitch'', JNum 20), (''Yaw'', JNum 30)])])]"

text \<open>A light record that has a type and nothing else.\<close>

definition bare_light :: json where
  "bare_light = JObj [(''Type'', JStr ''PointLightComponent'')]"

text \<open>
  An instanced mesh with a base transform that moves by 1 m along X and doubles the
  size, and the given per-instance data.
\<close>

definition rock_group :: "json \<Rightarrow> json" where
  "rock_group instances =
     JObj [(''Type'', JStr ''InstancedStaticMeshComponent''), (''Outer'', JStr ''Rocks''),
           (''Properties'', JObj
              [(''StaticMesh'', rock_mesh),
               (''RelativeLocation'', JObj [(''X'', JNum 100), (''Y'', JNum 0), (''Z'', JNum 0)]),
               (''RelativeScale3D'', JObj [(''X'', JNum 2), (''Y'', JNum 2), (''Z'', JNum 2)])]),
           (''PerInstanceSMData'', instances)]"

definition rock_group_no_data :: json where
  "rock_group_no_data =
     JObj [(''Type'', JStr ''InstancedStaticMeshComponent''), (''Outer'', JStr ''Rocks''),
           (''Properties'', JObj [(''StaticMesh'', rock_mesh)])]"

text \<open>One instance, moved by 1 m along X, with a rotation given as a quaternion.\<close>

definition moved_instance :: json where
  "moved_instance =
     JObj [(''TransformData'', JObj
        [(''Translation'', JObj [(''X'', JNum 100), (''Y'', JNum 0), (''Z'', JNum 0)])])]"

definition turned_instance :: json where
  "turned_instance =
     JObj [(''TransformData'', JObj
        [(''Rotation'', JObj [(''X'', JNum 1), (''Y'', JNum 2), (''Z'', JNum 3), (''W'', JNum 4)])])]"

section \<open>Sequencing and the example documents, evaluated\<close>

lemma bindE_Inr [simp]: "bindE (Inr v) f = f v"
  by (simp add: bindE_def)

lemma bindE_Inl [simp]: "bindE (Inl e) f = Inl e"
  by (simp add: bindE_def)

lemma bindE_eq_Inr: "bindE m f = Inr y \<longleftrightarrow> (\<exists>v. m = Inr v \<and> f v = Inr y)"
  by (cases m) auto

lemmas transform_defs =
  base_transform_def read_location_def read_rotation_def read_scale_def radians_def
  new_InstanceTransform_def

lemma rock_at_init:
  "StaticMesh_init E (rock_at x y z) (JStr ''StaticMeshComponent'') =
     Inr (new_StaticMesh\<lparr>entity_name := JStr ''Rock_1'',
            asset_path := make_asset_path E ''/Game/Meshes/Rock'',
            transform := Some \<lparr>pos = (x / 100, - (y / 100), z / 100), rot_euler = (0, 0, 0),
                                scale = (JNum 1, JNum 1, JNum 1)\<rparr>\<rparr>)"
  by (simp add: StaticMesh_init_def rock_at_def rock_mesh_def StaticMesh_match_def
      transform_defs new_StaticMesh_def sublist_code)

lemma rock_group_init:
  "StaticMesh_init E (rock_group (JArr [moved_instance])) (JStr ''InstancedStaticMeshComponent'') =
     Inr (new_StaticMesh\<lparr>entity_name := JStr ''Rocks'',
            asset_path := make_asset_path E ''/Game/Meshes/Rock'',
            transform := Some \<lparr>pos = (1, 0, 0), rot_euler = (0, 0, 0),
                                scale = (JNum 2, JNum 2, JNum 2)\<rparr>,
            instance_transforms := [\<lparr>pos = (1, 0, 0), rot_euler = (0, 0, 0),
                                      scale = (JNum 1, JNum 1, JNum 1)\<rparr>],
            is_instanced := True\<rparr>)"
  by (simp add: StaticMesh_init_def rock_group_def rock_mesh_def StaticMesh_match_def
      transform_defs new_StaticMesh_def sublist_code moved_instance_def instance_transform_def)

lemma base_matrix:
  "matrix_4x4 \<lparr>pos = (1, 0, 0), rot_euler = (0, 0, 0), scale = (JNum 2, JNum 2, JNum 2)\<rparr> =
     Inr [[2, 0, 0, 1], [0, 2, 0, 0], [0, 0, 2, 0], [0, 0, 0, 1]]"
  by (simp add: matrix_4x4_def vec3_of_def LocRotScale_def euler_to_mat3_def)

lemma instance_matrix:
  "matrix_4x4 \<lparr>pos = (1, 0, 0), rot_euler = (0, 0, 0), scale = (JNum 1, JNum 1, JNum 1)\<rparr> =
     Inr [[1, 0, 0, 1], [0, 1, 0, 0], [0, 0, 1, 0], [0, 0, 0, 1]]"
  by (simp add: matrix_4x4_def vec3_of_def LocRotScale_def euler_to_mat3_def)

section \<open>The colour of a temperature outside the table\<close>

text \<open>
  Claim C7. A temperature below 965 gives the colour (4.70366907, 0, 0) and a temperature
  of 12000 or more gives (0.826270103, 0.994478524, 1.56626022): outside the range of the
  table the colour is one of these two fixed values.
\<close>

theorem temp_to_color_saturates:
  "(T < 965 \<longrightarrow> temp_to_color T = (4.70366907, 0, 0))
   \<and> (T \<ge> 12000 \<longrightarrow> temp_to_color T = (0.826270103, 0.994478524, 1.56626022))"
  by (simp add: temp_to_color_def)

theorem temp_to_color_saturates_witness:
  "(500::real) < 965 \<and> temp_to_color 500 = (4.70366907, 0, 0)
   \<and> (20000::real) \<ge> 12000 \<and> temp_to_color 20000 = (0.826270103, 0.994478524, 1.56626022)"
  using temp_to_color_saturates [of 500] temp_to_color_saturates [of 20000] by simp


section \<open>Positions\<close>

text \<open>
  Claim C4. A source position (x, y, z) in centimetres is converted to
  (x/100, -y/100, z/100) in metres, and a static mesh record with that position, zero
  rotation and unit scale is placed as one object located there; with the position
  (100, 200, 300) the object is at (1, -2, 3).
\<close>

theorem position_cm_to_m:
  assumes "map_of p ''X'' = Some (JNum x)" and "map_of p ''Y'' = Some (JNum y)"
    and "map_of p ''Z'' = Some (JNum z)"
  shows "read_location (JObj p) = Inr (x / 100, - y / 100, z / 100)
    \<and> (\<exists>sm. StaticMesh_init E (rock_at x y z) (JStr ''StaticMeshComponent'') = Inr sm
          \<and> link_object_instance sm obj coll =
              (Inr [mesh_object obj (Components (x / 100, - y / 100, z / 100) (0, 0, 0) (1, 1, 1))],
               coll @ [mesh_object obj (Components (x / 100, - y / 100, z / 100) (0, 0, 0) (1, 1, 1))]))"
proof -
  have "read_location (JObj p) = Inr (x / 100, - y / 100, z / 100)"
    using assms by (simp add: read_location_def)
  moreover have "link_object_instance
      (new_StaticMesh\<lparr>entity_name := JStr ''Rock_1'',
            asset_path := make_asset_path E ''/Game/Meshes/Rock'',
            transform := Some \<lparr>pos = (x / 100, - (y / 100), z / 100), rot_euler = (0, 0, 0),
                                scale = (JNum 1, JNum 1, JNum 1)\<rparr>\<rparr>) obj coll =
              (Inr [mesh_object obj (Components (x / 100, - y / 100, z / 100) (0, 0, 0) (1, 1, 1))],
               coll @ [mesh_object obj (Components (x / 100, - y / 100, z / 100) (0, 0, 0) (1, 1, 1))])"
    by (simp add: link_object_instance_def StaticMesh_invalid_def new_StaticMesh_def vec3_of_def Let_def)
  ultimately show ?thesis
    using rock_at_init [of E x y z] by simp
qed

theorem position_cm_to_m_witness:
  "read_location (JObj [(''X'', JNum 100), (''Y'', JNum 200), (''Z'', JNum 300)]) = Inr (1, - 2, 3)
   \<and> (\<exists>sm. StaticMesh_init example_env (rock_at 100 200 300) (JStr ''StaticMeshComponent'') = Inr sm
         \<and> map ob_transform (snd (link_object_instance sm \<lparr>lo_name = ''Rock'', lo_data = 7\<rparr> []))
             = [Components (1, - 2, 3) (0, 0, 0) (1, 1, 1)])"
  using position_cm_to_m [of "[(''X'', JNum 100), (''Y'', JNum 200), (''Z'', JNum 300)]" 100 200 300
      example_env "\<lparr>lo_name = ''Rock'', lo_data = 7\<rparr>" "[]"]
  by (auto simp: mesh_object_def)

section \<open>Instances\<close>

lemma link_instances_world_matrices:
  assumes "matrix_4x4 trs = Inr b" and "map matrix_4x4 its = map Inr ms"
  shows "link_instances trs obj its coll =
     (Inr (map (\<lambda>i. mesh_object obj (MatrixWorld (mat_mul b i))) ms),
      coll @ map (\<lambda>i. mesh_object obj (MatrixWorld (mat_mul b i))) ms)"
  using assms
proof (induction its arbitrary: ms coll)
  case Nil
  then show ?case by simp
next
  case (Cons it its)
  then obtain m ms' where ms: "ms = m # ms'" "matrix_4x4 it = Inr m" "map matrix_4x4 its = map Inr ms'"
    by (cases ms) auto
  with Cons.IH [of ms' "coll @ [mesh_object obj (MatrixWorld (mat_mul b m))]"] Cons.prems(1)
  show ?case by (simp add: Let_def)
qed

text \<open>
  Claim C5. For a valid instanced entity with base transform B, the objects placed are,
  in the order of the instance transforms, one per instance transform I, each with the
  world matrix (matrix of B) times (matrix of I). The example has a base that scales, so
  this product is neither the matrix of I nor the product in the other order.
\<close>

theorem instance_world_matrix_is_base_times_instance:
  assumes "\<not> StaticMesh_invalid self" and "is_instanced self" and "transform self = Some B"
    and "matrix_4x4 B = Inr b" and "map matrix_4x4 (instance_transforms self) = map Inr ms"
  shows "link_object_instance self obj coll =
     (Inr (map (\<lambda>i. mesh_object obj (MatrixWorld (mat_mul b i))) ms),
      coll @ map (\<lambda>i. mesh_object obj (MatrixWorld (mat_mul b i))) ms)"
  using assms link_instances_world_matrices [of B b "instance_transforms self" ms obj coll]
  by (simp add: link_object_instance_def)

theorem instance_world_matrix_is_base_times_instance_witness:
  "\<exists>self b i.
     StaticMesh_init example_env (rock_group (JArr [moved_instance]))
       (JStr ''InstancedStaticMeshComponent'') = Inr self
     \<and> map_option matrix_4x4 (transform self) = Some (Inr b)
     \<and> map matrix_4x4 (instance_transforms self) = [Inr i]
     \<and> map ob_transform (snd (link_object_instance self \<lparr>lo_name = ''Rock'', lo_data = 7\<rparr> []))
         = [MatrixWorld [[2, 0, 0, 3], [0, 2, 0, 0], [0, 0, 2, 0], [0, 0, 0, 1]]]
     \<and> mat_mul b i = [[2, 0, 0, 3], [0, 2, 0, 0], [0, 0, 2, 0], [0, 0, 0, 1]]
     \<and> i = [[1, 0, 0, 1], [0, 1, 0, 0], [0, 0, 1, 0], [0, 0, 0, 1]]
     \<and> mat_mul i b = [[2, 0, 0, 2], [0, 2, 0, 0], [0, 0, 2, 0], [0, 0, 0, 1]]"
proof -
  define self where "self = new_StaticMesh\<lparr>entity_name := JStr ''Rocks'',
            asset_path := make_asset_path example_env ''/Game/Meshes/Rock'',
            transform := Some \<lparr>pos = (1, 0, 0), rot_euler = (0, 0, 0),
                                scale = (JNum 2, JNum 2, JNum 2)\<rparr>,
            instance_transforms := [\<lparr>pos = (1, 0, 0), rot_euler = (0, 0, 0),
                                      scale = (JNum 1, JNum 1, JNum 1)\<rparr>],
            is_instanced := True\<rparr>"
  have valid: "\<not> StaticMesh_invalid self" and inst: "is_instanced self"
    and tr: "transform self = Some \<lparr>pos = (1, 0, 0), rot_euler = (0, 0, 0),
                                scale = (JNum 2, JNum 2, JNum 2)\<rparr>"
    and its: "map matrix_4x4 (instance_transforms self) =
       map Inr [[[1, 0, 0, 1], [0, 1, 0, 0], [0, 0, 1, 0], [0, 0, 0, 1]]]"
    by (simp_all add: self_def StaticMesh_invalid_def new_StaticMesh_def instance_matrix)
  have "map ob_transform (snd (link_object_instance self \<lparr>lo_name = ''Rock'', lo_data = 7\<rparr> []))
         = [MatrixWorld [[2, 0, 0, 3], [0, 2, 0, 0], [0, 0, 2, 0], [0, 0, 0, 1]]]"
    using instance_world_matrix_is_base_times_instance [OF valid inst tr base_matrix its,
        of "\<lparr>lo_name = ''Rock'', lo_data = 7\<rparr>" "[]"]
    by (simp add: mesh_object_def mat_mul_def)
  moreover have "StaticMesh_init example_env (rock_group (JArr [moved_instance]))
       (JStr ''InstancedStaticMeshComponent'') = Inr self"
    by (simp add: rock_group_init self_def)
  ultimately show ?thesis
    using tr its base_matrix by (simp add: mat_mul_def)
qed

text \<open>
  Claim C8. For a per-instance element whose transform data has a rotation with the
  components W, X, Y and Z, the Euler rotation of the instance is the library's
  conversion of the quaternion (W, X, Y, Z), with its X and Z components negated and its
  Y component unchanged.
\<close>

theorem instance_rotation_of_quaternion:
  assumes td: "py_get inst ''TransformData'' JNull = Inr (JObj td)"
    and rot: "map_of td ''Rotation'' = Some (JObj q)"
    and q: "map_of q ''W'' = Some (JNum w)" "map_of q ''X'' = Some (JNum x)"
      "map_of q ''Y'' = Some (JNum y)" "map_of q ''Z'' = Some (JNum z)"
    and ok: "instance_transform E inst = Inr trs"
  shows "rot_euler trs =
    (case quat_to_euler E (w, x, y, z) of (ex, ey, ez) \<Rightarrow> (- ex, ey, - ez))"
proof -
  have "read_quaternion E (JObj q) =
      Inr (case quat_to_euler E (w, x, y, z) of (ex, ey, ez) \<Rightarrow> (- ex, ey, - ez))"
    using q by (simp add: read_quaternion_def split: prod.splits)
  with td rot ok show ?thesis
    by (auto simp: instance_transform_def bindE_eq_Inr split: if_splits)
qed

theorem instance_rotation_of_quaternion_witness:
  "\<exists>trs. instance_transform example_env turned_instance = Inr trs
     \<and> quat_to_euler example_env (4, 1, 2, 3) = (1, 2, 3)
     \<and> rot_euler trs = (- 1, 2, - 3)"
proof -
  have ok: "instance_transform example_env turned_instance =
     Inr \<lparr>pos = (0, 0, 0), rot_euler = (- 1, 2, - 3), scale = (JNum 1, JNum 1, JNum 1)\<rparr>"
    by (simp add: instance_transform_def turned_instance_def read_quaternion_def example_env_def
        new_InstanceTransform_def)
  have "rot_euler \<lparr>pos = (0, 0, 0), rot_euler = (- 1, 2, - 3), scale = (JNum 1, JNum 1, JNum 1)\<rparr>
      = (case quat_to_euler example_env (4, 1, 2, 3) of (ex, ey, ez) \<Rightarrow> (- ex, ey, - ez))"
    by (rule instance_rotation_of_quaternion [OF _ _ _ _ _ _ ok, where
          td = "[(''Rotation'', JObj [(''X'', JNum 1), (''Y'', JNum 2), (''Z'', JNum 3), (''W'', JNum 4)])]"
          and q = "[(''X'', JNum 1), (''Y'', JNum 2), (''Z'', JNum 3), (''W'', JNum 4)]"])
       (simp_all add: turned_instance_def)
  then have "quat_to_euler example_env (4, 1, 2, 3) = (1, 2, 3)"
    by (auto split: prod.splits)
  with ok show ?thesis by simp
qed

section \<open>Lights\<close>

lemma turned_light_init:
  "GameLight_init turned_light =
     Inr (new_GameLight\<lparr>light_type := JStr ''PointLightComponent'',
            light_entity_name := JStr ''Lamp_1'',
            light_rot := (JNum 10, JNum 20, JNum (- 30))\<rparr>)"
  by (simp add: GameLight_init_def turned_light_def new_GameLight_def)

text \<open>
  Claim C10. Importing a valid light, when it returns, returns true and has linked one
  and the same new light object into two collections: the collection it was given and
  the root collection of the scene.
\<close>

theorem light_linked_to_both_collections:
  assumes "\<not> light_no_entity L" and "import_light L cs = (Inr r, cs')"
  shows "r = True \<and> (\<exists>light_obj. import_objects cs' = import_objects cs @ [light_obj]
            \<and> scene_objects cs' = scene_objects cs @ [light_obj])"
  using assms by (auto simp: import_light_def split: sum.splits)

theorem light_linked_to_both_collections_witness:
  "\<exists>L cs' light_obj.
     GameLight_init turned_light = Inr L \<and> \<not> light_no_entity L
     \<and> import_light L \<lparr>import_objects = [], scene_objects = []\<rparr> = (Inr True, cs')
     \<and> import_objects cs' = [light_obj] \<and> scene_objects cs' = [light_obj]
     \<and> ob_data light_obj = LightData ''Lamp_1'' POINT (1, 1, 1)"
proof -
  define L where "L = new_GameLight\<lparr>light_type := JStr ''PointLightComponent'',
            light_entity_name := JStr ''Lamp_1'',
            light_rot := (JNum 10, JNum 20, JNum (- 30))\<rparr>"
  define light_obj where "light_obj =
     \<lparr>ob_name = ''Lamp_1'', ob_data = LightData ''Lamp_1'' POINT (1, 1, 1),
      ob_rotation_mode = ''XYZ'',
      ob_transform = Components (0, 0, 0) (radians 10, radians 20, radians (- 30)) (1, 1, 1)\<rparr>"
  have valid: "\<not> light_no_entity L"
    by (simp add: L_def new_GameLight_def)
  have run: "import_light L \<lparr>import_objects = [], scene_objects = []\<rparr> =
      (Inr True, \<lparr>import_objects = [light_obj], scene_objects = [light_obj]\<rparr>)"
    by (simp add: import_light_def L_def new_GameLight_def vec3_of_def light_obj_def)
  from light_linked_to_both_collections [OF valid run]
  have "\<exists>x. import_objects \<lparr>import_objects = [light_obj], scene_objects = [light_obj]\<rparr> = [x]
          \<and> scene_objects \<lparr>import_objects = [light_obj], scene_objects = [light_obj]\<rparr> = [x]"
    by simp
  with valid run turned_light_init show ?thesis
    by (auto simp: L_def light_obj_def)
qed

text \<open>
  Claim C2, as the code has it. For a light record whose rotation has the components
  roll, pitch and yaw, the classified light keeps roll and pitch as they are and stores
  the yaw negated, all three still in degrees; the conversion to radians is done when the
  light is placed. (The claim as stated has the yaw unnegated.)
\<close>

theorem light_rotation_classified_in_degrees:
  assumes props: "py_get entity ''Properties'' JNull = Inr (JObj props)"
    and rot: "map_of props ''RelativeRotation'' = Some (JObj rot)"
    and r: "map_of rot ''Roll'' = Some (JNum roll)" "map_of rot ''Pitch'' = Some (JNum pitch)"
      "map_of rot ''Yaw'' = Some (JNum yaw)"
    and ok: "GameLight_init entity = Inr L" and valid: "\<not> light_no_entity L"
  shows "light_rot L = (JNum roll, JNum pitch, JNum (- yaw))
    \<and> (\<forall>cs cs'. import_light L cs = (Inr True, cs') \<longrightarrow>
          (\<exists>sc. ob_transform (last (import_objects cs'))
             = Components (light_pos L) (radians roll, radians pitch, radians (- yaw)) sc))"
proof -
  have rt: "light_rot L = (JNum roll, JNum pitch, JNum (- yaw))"
    using props rot r ok valid
    by (auto simp: GameLight_init_def bindE_eq_Inr Let_def split: if_splits)
  moreover have "\<exists>sc. ob_transform (last (import_objects cs'))
             = Components (light_pos L) (radians roll, radians pitch, radians (- yaw)) sc"
    if "import_light L cs = (Inr True, cs')" for cs cs'
    using that valid rt
    by (auto simp: import_light_def vec3_of_def bindE_eq_Inr split: sum.splits if_splits json.splits)
  ultimately show ?thesis by blast
qed

text \<open>
  The light with roll 10, pitch 20 and yaw 30 is classified with the rotation
  (10, 20, -30), not (10, 20, 30).
\<close>

theorem light_yaw_is_negated_example:
  "GameLight_init turned_light =
     Inr \<lparr>light_type = JStr ''PointLightComponent'', light_entity_name = JStr ''Lamp_1'',
          light_pos = (0, 0, 0), light_rot = (JNum 10, JNum 20, JNum (- 30)),
          light_scale = (JNum 1, JNum 1, JNum 1), light_color = (1, 1, 1),
          light_no_entity = False\<rparr>
   \<and> (JNum 10, JNum 20, JNum (- 30)) \<noteq> (JNum 10, JNum 20, JNum 30)"
  by (simp add: turned_light_init new_GameLight_def)

theorem light_rotation_classified_in_degrees_witness:
  "\<exists>L cs'. GameLight_init turned_light = Inr L \<and> \<not> light_no_entity L
     \<and> light_rot L = (JNum 10, JNum 20, JNum (- 30))
     \<and> import_light L \<lparr>import_objects = [], scene_objects = []\<rparr> = (Inr True, cs')
     \<and> ob_transform (last (import_objects cs'))
          = Components (0, 0, 0) (radians 10, radians 20, radians (- 30)) (1, 1, 1)"
proof -
  define L where "L = new_GameLight\<lparr>light_type := JStr ''PointLightComponent'',
            light_entity_name := JStr ''Lamp_1'',
            light_rot := (JNum 10, JNum 20, JNum (- 30))\<rparr>"
  define light_obj where "light_obj =
     \<lparr>ob_name = ''Lamp_1'', ob_data = LightData ''Lamp_1'' POINT (1, 1, 1),
      ob_rotation_mode = ''XYZ'',
      ob_transform = Components (0, 0, 0) (radians 10, radians 20, radians (- 30)) (1, 1, 1)\<rparr>"
  have ok: "GameLight_init turned_light = Inr L"
    by (simp add: turned_light_init L_def)
  have valid: "\<not> light_no_entity L"
    by (simp add: L_def new_GameLight_def)
  have run: "import_light L \<lparr>import_objects = [], scene_objects = []\<rparr> =
      (Inr True, \<lparr>import_objects = [light_obj], scene_objects = [light_obj]\<rparr>)"
    by (simp add: import_light_def L_def new_GameLight_def vec3_of_def light_obj_def)
  have "light_rot L = (JNum 10, JNum 20, JNum (- 30))"
    using light_rotation_classified_in_degrees [OF _ _ _ _ _ ok valid, where
        props = "[(''RelativeRotation'', JObj [(''Roll'', JNum 10), (''Pitch'', JNum 20), (''Yaw'', JNum 30)])]"
        and rot = "[(''Roll'', JNum 10), (''Pitch'', JNum 20), (''Yaw'', JNum 30)]"
        and roll = 10 and pitch = 20 and yaw = 30]
    by (simp add: turned_light_def)
  with ok valid run show ?thesis
    by (auto simp: light_obj_def)
qed

section \<open>Validity of static meshes\<close>






section \<open>Per-instance data\<close>

lemma read_instances_length: "read_instances E xs = Inr its \<Longrightarrow> length its = length xs"
  by (induction xs arbitrary: its) (auto simp: bindE_eq_Inr)

lemma link_instances_length:
  "link_instances trs obj its coll = (Inr objs, coll') \<Longrightarrow>
     length objs = length its \<and> coll' = coll @ objs"
proof (induction its arbitrary: coll objs coll')
  case Nil
  then show ?case by simp
next
  case (Cons it its)
  from Cons.prems obtain m rest where
    m: "bindE (matrix_4x4 trs) (\<lambda>b. bindE (matrix_4x4 it) (\<lambda>i. Inr (mat_mul b i))) = Inr m"
    and rest: "link_instances trs obj its (coll @ [mesh_object obj (MatrixWorld m)]) = (Inr rest, coll')"
    and objs: "objs = mesh_object obj (MatrixWorld m) # rest"
    by (auto simp: Let_def split: sum.splits prod.splits)
  from Cons.IH [OF rest] objs show ?case by simp
qed

lemma StaticMesh_init_passes:
  assumes "StaticMesh_init E entity ty = Inr sm"
    and "\<not> no_entity sm" "\<not> no_mesh sm" "\<not> no_path sm" "\<not> base_shape sm" "\<not> not_rendered sm"
  shows "\<exists>props self. StaticMesh_match E entity props ty self = Inr sm
     \<and> \<not> no_per_instance_data self \<and> \<not> is_instanced self"
  using assms
  apply (auto simp: StaticMesh_init_def bindE_eq_Inr Let_def new_StaticMesh_def split: if_splits)
   apply (intro exI conjI, assumption, simp_all)+
  done

lemma StaticMesh_match_instanced:
  assumes "StaticMesh_match E entity props ty self = Inr sm"
    and "ty = JStr ''InstancedStaticMeshComponent'' \<or> ty = JStr ''HierarchicalInstancedStaticMeshComponent''"
    and "py_get entity ''PerInstanceSMData'' JNull = Inr inst"
    and "\<not> no_per_instance_data self"
  shows "(inst = JNull \<longrightarrow> no_per_instance_data sm)
    \<and> (inst \<noteq> JNull \<longrightarrow> \<not> no_per_instance_data sm \<and> is_instanced sm
          \<and> (\<exists>trs insts. py_iter inst = Inr insts \<and> transform sm = Some trs
                \<and> read_instances E insts = Inr (instance_transforms sm)))"
  using assms
  by (auto simp: StaticMesh_match_def bindE_eq_Inr split: if_splits)

text \<open>
  Claim C6, as the code has it. For an instanced mesh record that passes the checks made
  before the entity type is looked at (properties, mesh, path, no basic shape, rendered):
  when \<^verbatim>\<open>PerInstanceSMData\<close> is absent (or null) the flag
  \<^verbatim>\<open>no_per_instance_data\<close> is set, the entity is invalid and nothing is placed; when
  it is an array the flag stays unset and there is one instance transform per element,
  and linking a valid such entity, when it returns, places exactly as many objects as the
  array has elements; for the empty array nothing is placed. (The claim as stated sets
  the flag for every record without the key; a record that fails an earlier check returns
  before the key is read.)
\<close>

theorem placements_follow_per_instance_data:
  assumes init: "StaticMesh_init E entity ty = Inr sm"
    and ty: "ty = JStr ''InstancedStaticMeshComponent''
               \<or> ty = JStr ''HierarchicalInstancedStaticMeshComponent''"
    and passes: "\<not> no_entity sm" "\<not> no_mesh sm" "\<not> no_path sm" "\<not> base_shape sm"
      "\<not> not_rendered sm"
    and data: "py_get entity ''PerInstanceSMData'' JNull = Inr inst"
  shows "(inst = JNull \<longrightarrow>
            no_per_instance_data sm \<and> StaticMesh_invalid sm
            \<and> link_object_instance sm obj coll = (Inr [], coll))
    \<and> (\<forall>xs. inst = JArr xs \<longrightarrow>
            \<not> no_per_instance_data sm \<and> length (instance_transforms sm) = length xs
            \<and> (\<forall>objs coll'. \<not> StaticMesh_invalid sm
                  \<and> link_object_instance sm obj coll = (Inr objs, coll') \<longrightarrow>
                  length objs = length xs \<and> coll' = coll @ objs))
    \<and> (inst = JArr [] \<longrightarrow> link_object_instance sm obj coll = (Inr [], coll))"
proof -
  from StaticMesh_init_passes [OF init passes] obtain props self where
    m: "StaticMesh_match E entity props ty self = Inr sm" and s: "\<not> no_per_instance_data self"
    by blast
  note M = StaticMesh_match_instanced [OF m ty data s]
  have absent: "no_per_instance_data sm \<and> StaticMesh_invalid sm
            \<and> link_object_instance sm obj coll = (Inr [], coll)" if "inst = JNull"
    using M that by (simp add: StaticMesh_invalid_def link_object_instance_def)
  have present: "\<not> no_per_instance_data sm \<and> length (instance_transforms sm) = length xs
            \<and> (\<forall>objs coll'. \<not> StaticMesh_invalid sm
                  \<and> link_object_instance sm obj coll = (Inr objs, coll') \<longrightarrow>
                  length objs = length xs \<and> coll' = coll @ objs)" if x: "inst = JArr xs" for xs
  proof -
    from M x obtain trs where f: "\<not> no_per_instance_data sm" and i: "is_instanced sm"
      and t: "transform sm = Some trs" and r: "read_instances E xs = Inr (instance_transforms sm)"
      by auto
    have len: "length (instance_transforms sm) = length xs"
      using read_instances_length [OF r] .
    have "length objs = length xs \<and> coll' = coll @ objs"
      if "\<not> StaticMesh_invalid sm" "link_object_instance sm obj coll = (Inr objs, coll')"
      for objs coll'
      using that i t len link_instances_length [of trs obj "instance_transforms sm" coll objs coll']
      by (simp add: link_object_instance_def)
    with f len show ?thesis by blast
  qed
  have empty: "link_object_instance sm obj coll = (Inr [], coll)" if x: "inst = JArr []"
  proof -
    from M x obtain trs where i: "is_instanced sm"
      and t: "transform sm = Some trs" and r: "read_instances E [] = Inr (instance_transforms sm)"
      by auto
    then show ?thesis
      by (simp add: link_object_instance_def)
  qed
  from absent present empty show ?thesis by blast
qed


lemma rock_group_no_data_init:
  "StaticMesh_init E rock_group_no_data (JStr ''InstancedStaticMeshComponent'') =
     Inr (new_StaticMesh\<lparr>entity_name := JStr ''Rocks'',
            asset_path := make_asset_path E ''/Game/Meshes/Rock'',
            is_instanced := True, no_per_instance_data := True\<rparr>)"
  by (simp add: StaticMesh_init_def rock_group_no_data_def rock_mesh_def StaticMesh_match_def
      new_StaticMesh_def sublist_code)

lemma rock_group_empty_init:
  "StaticMesh_init E (rock_group (JArr [])) (JStr ''InstancedStaticMeshComponent'') =
     Inr (new_StaticMesh\<lparr>entity_name := JStr ''Rocks'',
            asset_path := make_asset_path E ''/Game/Meshes/Rock'',
            transform := Some \<lparr>pos = (1, 0, 0), rot_euler = (0, 0, 0),
                                scale = (JNum 2, JNum 2, JNum 2)\<rparr>,
            is_instanced := True\<rparr>)"
  by (simp add: StaticMesh_init_def rock_group_def rock_mesh_def StaticMesh_match_def
      transform_defs new_StaticMesh_def sublist_code)

text \<open>
  An instanced mesh record with a type and nothing else has no per-instance data, and is
  classified with the flag \<^verbatim>\<open>no_entity\<close> and without the flag
  \<^verbatim>\<open>no_per_instance_data\<close>.
\<close>

theorem bare_instanced_has_no_instance_flag:
  "map_of [(''Type'', JStr ''InstancedStaticMeshComponent'')] ''PerInstanceSMData'' = None
   \<and> StaticMesh_init example_env (JObj [(''Type'', JStr ''InstancedStaticMeshComponent'')])
        (JStr ''InstancedStaticMeshComponent'') =
     Inr \<lparr>entity_name = JStr ''Error'', asset_path = [], transform = None,
          instance_transforms = [], no_entity = True, no_mesh = False, no_path = False,
          no_per_instance_data = False, base_shape = False, is_instanced = False,
          not_rendered = False, invisible = False, bad_creation_method = False\<rparr>"
  by (simp add: StaticMesh_init_def new_StaticMesh_def)

theorem placements_follow_per_instance_data_witness:
  "\<exists>sm0 sm1 sm2 objs coll'.
     StaticMesh_init example_env rock_group_no_data (JStr ''InstancedStaticMeshComponent'') = Inr sm0
     \<and> no_per_instance_data sm0 \<and> StaticMesh_invalid sm0
     \<and> link_object_instance sm0 \<lparr>lo_name = ''Rock'', lo_data = 7\<rparr> [] = (Inr [], [])
     \<and> StaticMesh_init example_env (rock_group (JArr [])) (JStr ''InstancedStaticMeshComponent'') = Inr sm1
     \<and> \<not> no_per_instance_data sm1 \<and> \<not> StaticMesh_invalid sm1
     \<and> link_object_instance sm1 \<lparr>lo_name = ''Rock'', lo_data = 7\<rparr> [] = (Inr [], [])
     \<and> StaticMesh_init example_env (rock_group (JArr [moved_instance]))
          (JStr ''InstancedStaticMeshComponent'') = Inr sm2
     \<and> \<not> no_per_instance_data sm2 \<and> \<not> StaticMesh_invalid sm2
     \<and> link_object_instance sm2 \<lparr>lo_name = ''Rock'', lo_data = 7\<rparr> [] = (Inr objs, coll')
     \<and> length objs = 1 \<and> coll' = objs"
proof -
  let ?ty = "JStr ''InstancedStaticMeshComponent''"
  let ?obj = "\<lparr>lo_name = ''Rock'', lo_data = 7\<rparr>"
  define sm0 where "sm0 = new_StaticMesh\<lparr>entity_name := JStr ''Rocks'',
            asset_path := make_asset_path example_env ''/Game/Meshes/Rock'',
            is_instanced := True, no_per_instance_data := True\<rparr>"
  define sm1 where "sm1 = new_StaticMesh\<lparr>entity_name := JStr ''Rocks'',
            asset_path := make_asset_path example_env ''/Game/Meshes/Rock'',
            transform := Some \<lparr>pos = (1, 0, 0), rot_euler = (0, 0, 0),
                                scale = (JNum 2, JNum 2, JNum 2)\<rparr>,
            is_instanced := True\<rparr>"
  define sm2 where "sm2 = new_StaticMesh\<lparr>entity_name := JStr ''Rocks'',
            asset_path := make_asset_path example_env ''/Game/Meshes/Rock'',
            transform := Some \<lparr>pos = (1, 0, 0), rot_euler = (0, 0, 0),
                                scale = (JNum 2, JNum 2, JNum 2)\<rparr>,
            instance_transforms := [\<lparr>pos = (1, 0, 0), rot_euler = (0, 0, 0),
                                      scale = (JNum 1, JNum 1, JNum 1)\<rparr>],
            is_instanced := True\<rparr>"
  have i0: "StaticMesh_init example_env rock_group_no_data ?ty = Inr sm0"
    and i1: "StaticMesh_init example_env (rock_group (JArr [])) ?ty = Inr sm1"
    and i2: "StaticMesh_init example_env (rock_group (JArr [moved_instance])) ?ty = Inr sm2"
    by (simp_all add: sm0_def sm1_def sm2_def rock_group_no_data_init rock_group_empty_init
        rock_group_init)
  have d0: "py_get rock_group_no_data ''PerInstanceSMData'' JNull = Inr JNull"
    and d1: "py_get (rock_group (JArr [])) ''PerInstanceSMData'' JNull = Inr (JArr [])"
    and d2: "py_get (rock_group (JArr [moved_instance])) ''PerInstanceSMData'' JNull
               = Inr (JArr [moved_instance])"
    by (simp_all add: rock_group_no_data_def rock_group_def)
  have v1: "\<not> StaticMesh_invalid sm1" and v2: "\<not> StaticMesh_invalid sm2"
    by (simp_all add: sm1_def sm2_def StaticMesh_invalid_def new_StaticMesh_def)
  obtain objs coll' where run: "link_object_instance sm2 ?obj [] = (Inr objs, coll')"
    by (simp add: link_object_instance_def sm2_def new_StaticMesh_def StaticMesh_invalid_def
        base_matrix instance_matrix Let_def)
  have t0: "no_per_instance_data sm0 \<and> StaticMesh_invalid sm0
      \<and> link_object_instance sm0 ?obj [] = (Inr [], [])"
    using placements_follow_per_instance_data [OF i0 _ _ _ _ _ _ d0, of ?obj "[]"]
    by (simp add: sm0_def new_StaticMesh_def)
  have t1: "\<not> no_per_instance_data sm1 \<and> link_object_instance sm1 ?obj [] = (Inr [], [])"
    using placements_follow_per_instance_data [OF i1 _ _ _ _ _ _ d1, of ?obj "[]"]
    by (simp add: sm1_def new_StaticMesh_def)
  have t2: "\<not> no_per_instance_data sm2 \<and> length objs = 1 \<and> coll' = objs"
    using placements_follow_per_instance_data [OF i2 _ _ _ _ _ _ d2, of ?obj "[]"] v2 run
    by (simp add: sm2_def new_StaticMesh_def)
  from i0 i1 i2 v1 v2 run t0 t1 t2 show ?thesis
    by blast
qed


section \<open>The import as a whole\<close>

lemma import_entity_bare_light:
  "import_entity E bare_light st =
     (if static_mesh_bound st then (Inr (), st) else (Inl UnboundLocalError, st))"
  by (simp add: import_entity_def bare_light_def light_types_def static_mesh_types_def
      GameLight_init_def GameLight_invalid_def new_GameLight_def)

text \<open>
  Claim C3. The claim is that no exception escapes classification and assembly of a
  record whose fields are absent. A light record without properties is classified as
  invalid, and the message of the skip reads the variable \<^verbatim>\<open>static_mesh\<close>: when no
  static mesh record came before it in the document, the import raises
  UnboundLocalError (the new collection is left behind, empty); after a static mesh
  record, the same light is skipped.
\<close>

theorem invalid_first_light_raises:
  "import_map E f (Parsed (JArr [bare_light])) sc =
     (Inl UnboundLocalError, sc\<lparr>scene_children := scene_children sc @ [(f, [])]\<rparr>)
   \<and> import_entities E [bare_light] st =
       (if static_mesh_bound st then (Inr (), st) else (Inl UnboundLocalError, st))"
  by (simp add: import_map_def import_entity_bare_light with_import_collection_def)

theorem invalid_first_light_raises_witness:
  "fst (import_map example_env ''map.json'' (Parsed (JArr [bare_light])) empty_scene)
     = Inl UnboundLocalError"
  using invalid_first_light_raises [of example_env "''map.json''" empty_scene]
  by simp












end
